theory Spec2Isabelle
  imports Complex_Main
begin

section \<open>Energy estimate of the H2 notebook: data model\<close>

text \<open>
  The notebook computes with Python floats and Python dicts. Numbers are modelled as
  \<^typ>\<open>real\<close> (rounding, infinities and NaN are outside the model, so nothing below
  is a statement about the last bits of a double), a measurement
  result (a dict from outcome label to frequency) as a map from strings to reals, and
  the global \<open>energy_offset\<close> read by \<open>calc_energy\<close> as an explicit first argument.

  The notebook defines no exception class and contains no \<open>raise\<close>, \<open>assert\<close> or
  length check. The three constructors below are the error names of the specification's
  taxonomy; they exist so that "fails with ..." can be written down. Both operations
  return a sum type whose only branch in the code is \<open>Inr\<close>.
\<close>

datatype error = InvalidEncoding | LengthMismatch | InvalidResult

type_synonym measurement_result = "string \<rightharpoonup> real"

text \<open>\<^verbatim>\<open>d.get(k, default)\<close>\<close>

definition dict_get :: "('k \<rightharpoonup> 'v) \<Rightarrow> 'k \<Rightarrow> 'v \<Rightarrow> 'v" where
  "dict_get d k dflt = (case d k of None \<Rightarrow> dflt | Some v \<Rightarrow> v)"

text \<open>\<^verbatim>\<open>sum(xs)\<close>: starts at 0 and adds the elements from left to right.\<close>

definition py_sum :: "real list \<Rightarrow> real" where
  "py_sum xs = foldl (+) 0 xs"

section \<open>Energy aggregation\<close>

text \<open>
  \<^verbatim>\<open>
  def calc_energy(coeffs, results):
      return sum([(2. * res.get("0", 0.0) - 1.) * coeff
                  for coeff, res in zip(coeffs, results)]) + energy_offset
  \<close>
  Python's \<open>zip\<close> stops at the end of the shorter sequence, as \<^const>\<open>zip\<close> does.
\<close>

definition calc_energy ::
  "real \<Rightarrow> real list \<Rightarrow> measurement_result list \<Rightarrow> error + real" where
  "calc_energy energy_offset coeffs results =
     Inr (py_sum (map (\<lambda>(coeff, res). (2 * dict_get res ''0'' 0 - 1) * coeff)
                      (zip coeffs results))
          + energy_offset)"

section \<open>Coefficient expansion\<close>

text \<open>
  \<^verbatim>\<open>
  coeffs = []
  for term_type, terms in enumerate(fermion_terms):
      for (qubits, coeff) in terms:
          coeffs += ExpandedCoefficients_(coeff=coeff, termType=term_type)
  \<close>
  \<open>ExpandedCoefficients_\<close> is a Q\# function imported by the notebook; its body is not
  part of the notebook, so it is the parameter \<open>expanded\<close> of the model. The inner loop
  extends the accumulator \<open>coeffs\<close> once per pair, the outer loop counts the term types
  from 0.
\<close>

fun expand_terms ::
  "('c \<Rightarrow> nat \<Rightarrow> real list) \<Rightarrow> nat \<Rightarrow> ('q \<times> 'c) list \<Rightarrow> real list \<Rightarrow> real list" where
  "expand_terms expanded term_type [] coeffs = coeffs"
| "expand_terms expanded term_type ((qubits, coeff) # terms) coeffs =
     expand_terms expanded term_type terms (coeffs @ expanded coeff term_type)"

fun expand_term_types ::
  "('c \<Rightarrow> nat \<Rightarrow> real list) \<Rightarrow> nat \<Rightarrow> ('q \<times> 'c) list list \<Rightarrow> real list \<Rightarrow> real list" where
  "expand_term_types expanded term_type [] coeffs = coeffs"
| "expand_term_types expanded term_type (terms # fermion_terms) coeffs =
     expand_term_types expanded (Suc term_type) fermion_terms
       (expand_terms expanded term_type terms coeffs)"

definition expand_coefficients ::
  "('c \<Rightarrow> nat \<Rightarrow> real list) \<Rightarrow> ('q \<times> 'c) list list \<Rightarrow> error + real list" where
  "expand_coefficients expanded fermion_terms =
     Inr (expand_term_types expanded 0 fermion_terms [])"

text \<open>
  A stand-in for the external function, used only to run the loop on concrete inputs:
  one output coefficient per pair, whatever the term type.
\<close>

definition one_per_term :: "real \<Rightarrow> nat \<Rightarrow> real list" where
  "one_per_term coeff termType = [coeff]"

section \<open>Job submission\<close>

text \<open>
  \<^verbatim>\<open>
  jobs = [
      qsharp.azure.submit(GetHamiltonianTermH2, nOp=n_op, shots=1000, ...)
      for n_op, coeff in enumerate(coeffs) if coeff != 0.0
  ]
  results = [qsharp.azure.output(j.id) for j in jobs]
  calc_energy(coeffs, results)
  \<close>
  A job is identified by the operator index it was submitted for. One job is submitted
  per nonzero coefficient, \<open>results\<close> holds one output per job in the same order, and
  \<open>calc_energy\<close> is then called with the whole coefficient list.
\<close>

definition submitted_jobs :: "real list \<Rightarrow> nat list" where
  "submitted_jobs coeffs = [n_op. (n_op, coeff) \<leftarrow> enumerate 0 coeffs, coeff \<noteq> 0]"

section \<open>Auxiliary facts\<close>

lemma foldl_plus_sum_list: "foldl (+) a xs = (a::real) + sum_list xs"
  by (induction xs arbitrary: a) (simp_all add: add.assoc)

lemma py_sum_sum_list: "py_sum xs = sum_list xs"
  by (simp add: py_sum_def foldl_plus_sum_list)

lemma sum_list_all_zero: "\<forall>x \<in> set xs. f x = 0 \<Longrightarrow> sum_list (map f xs) = (0::real)"
  by (induction xs) simp_all

lemma sum_list_zip_nth:
  "sum_list (map f (zip xs ys)) = (\<Sum>i<min (length xs) (length ys). f (xs ! i, ys ! i))"
proof -
  have "sum_list (map f (zip xs ys)) = (\<Sum>i = 0..<length (zip xs ys). map f (zip xs ys) ! i)"
    by (simp add: sum_list_sum_nth)
  also have "\<dots> = (\<Sum>i = 0..<length (zip xs ys). f (xs ! i, ys ! i))"
    by (rule sum.cong) simp_all
  finally show ?thesis
    by (simp add: lessThan_atLeast0)
qed

section \<open>Sequences of different lengths\<close>

text \<open>
  C2. The aggregator is to refuse coefficient and result sequences of different
  lengths. \<open>calc_energy\<close> does not: it has no length check and pairs whatever \<open>zip\<close>
  pairs. The notebook's own flow produces such a call as soon as one coefficient is
  zero. For the coefficients \<open>[0.5, 0.0, -0.25]\<close> jobs are submitted for the operators
  0 and 2 only; with their outputs \<open>{"0": 1.0}\<close> and \<open>{"0": 0.0}\<close> and the offset
  \<open>0.25\<close> the call returns \<open>0.75\<close>: the output of operator 2 is multiplied by the
  coefficient of operator 1, and the coefficient of operator 2 is dropped. Each output
  multiplied by the coefficient of its own operator gives \<open>1\<close>.
\<close>

theorem calc_energy_misaligned_results:
  "submitted_jobs [0.5, 0, - 0.25] = [0, 2] \<and>
   length [0.5, 0, - 0.25 :: real] = 3 \<and> length [[''0'' \<mapsto> 1], [''0'' \<mapsto> 0 :: real]] = 2 \<and>
   calc_energy 0.25 [0.5, 0, - 0.25] [[''0'' \<mapsto> 1], [''0'' \<mapsto> 0]] = Inr 0.75 \<and>
   calc_energy 0.25 [0.5, 0, - 0.25] [[''0'' \<mapsto> 1], [''0'' \<mapsto> 0]] \<noteq> Inl LengthMismatch \<and>
   calc_energy 0.25 [0.5, - 0.25] [[''0'' \<mapsto> 1], [''0'' \<mapsto> 0]] = Inr 1"
  by (simp add: submitted_jobs_def enumerate_eq_zip upt_rec calc_energy_def py_sum_def dict_get_def)

text \<open>
  C3. With sequences of different lengths \<open>calc_energy\<close> returns the sum over the first
  \<open>min (len coeffs) (len results)\<close> index-aligned pairs plus the offset; no entry of the
  longer sequence beyond that index is read.
\<close>

theorem calc_energy_truncates:
  assumes "length coeffs \<noteq> length results"
  shows "calc_energy energy_offset coeffs results =
    Inr ((\<Sum>i<min (length coeffs) (length results).
            (2 * dict_get (results ! i) ''0'' 0 - 1) * coeffs ! i) + energy_offset)"
  by (simp add: calc_energy_def py_sum_sum_list sum_list_zip_nth)

theorem calc_energy_truncates_witness:
  "length [0.5 :: real] \<noteq> length [[''0'' \<mapsto> 1], [''0'' \<mapsto> 0 :: real], [''0'' \<mapsto> 0.25]] \<and>
   calc_energy 2 [0.5] [[''0'' \<mapsto> 1], [''0'' \<mapsto> 0], [''0'' \<mapsto> 0.25]] = Inr 2.5"
  using calc_energy_truncates [of "[0.5]" "[[''0'' \<mapsto> 1], [''0'' \<mapsto> 0], [''0'' \<mapsto> 0.25]]" 2]
  by (simp add: dict_get_def)

section \<open>Frequencies outside the unit interval\<close>

text \<open>
  C4, as amended. When some result reports a frequency for \<open>"0"\<close> below 0 or above 1,
  \<open>calc_energy\<close> raises nothing, \<open>InvalidResult\<close> in particular: it returns the sum of
  \<open>(2 * f - 1) * coeff\<close> over the aligned pairs plus the offset, each frequency \<open>f\<close>
  used as it was reported.
\<close>

theorem calc_energy_out_of_range:
  assumes "\<exists>res \<in> set results. dict_get res ''0'' 0 < 0 \<or> 1 < dict_get res ''0'' 0"
  shows "calc_energy energy_offset coeffs results \<noteq> Inl InvalidResult \<and>
    calc_energy energy_offset coeffs results =
      Inr (sum_list (map2 (\<lambda>coeff res. (2 * dict_get res ''0'' 0 - 1) * coeff) coeffs results)
           + energy_offset)"
  by (simp add: calc_energy_def py_sum_sum_list)

theorem calc_energy_out_of_range_witness:
  "(\<exists>res \<in> set [[''0'' \<mapsto> - 0.25 :: real]]. dict_get res ''0'' 0 < 0 \<or> 1 < dict_get res ''0'' 0) \<and>
   calc_energy 1 [2] [[''0'' \<mapsto> - 0.25]] \<noteq> Inl InvalidResult \<and>
   calc_energy 1 [2] [[''0'' \<mapsto> - 0.25]] = Inr (- 2)"
  using calc_energy_out_of_range [of "[[''0'' \<mapsto> - 0.25]]" 1 "[2]"]
  by (simp add: dict_get_def)

text \<open>
  The claim as the specification states it fails at its own example, a result
  \<open>{"0": 1.4}\<close>: the call returns a value, and no error. With the frequency 1.5,
  coefficient 1 and offset 0 that value is 2.
\<close>

theorem invalid_result_counterexample:
  "\<not> (1.4 :: real) \<le> 1 \<and> \<not> (1.5 :: real) \<le> 1 \<and>
   calc_energy 0 [1] [[''0'' \<mapsto> 1.4]] \<noteq> Inl InvalidResult \<and>
   calc_energy 0 [1] [[''0'' \<mapsto> 1.5]] = Inr 2"
  by (simp add: calc_energy_def py_sum_def dict_get_def)

section \<open>What the expansion loop returns\<close>

lemma expand_terms_append:
  "expand_terms expanded term_type terms coeffs =
   coeffs @ concat (map (\<lambda>coeff. expanded coeff term_type) (map snd terms))"
  by (induction terms arbitrary: coeffs) auto

lemma expand_term_types_append:
  "expand_term_types expanded term_type fermion_terms coeffs =
   coeffs @ concat (map (\<lambda>(t, cs). concat (map (\<lambda>coeff. expanded coeff t) cs))
                        (enumerate term_type (map (map snd) fermion_terms)))"
  by (induction fermion_terms arbitrary: term_type coeffs) (simp_all add: expand_terms_append)

lemma length_expand_term_types:
  "length (expand_term_types expanded term_type fermion_terms coeffs) =
   length coeffs +
   sum_list (map (\<lambda>(t, cs). sum_list (map (\<lambda>coeff. length (expanded coeff t)) cs))
                 (enumerate term_type (map (map snd) fermion_terms)))"
proof -
  have inner: "(length \<circ> (\<lambda>coeff. expanded coeff t)) = (\<lambda>coeff. length (expanded coeff t))" for t
    by (simp add: fun_eq_iff)
  have "(length \<circ> (\<lambda>(t, cs). concat (map (\<lambda>coeff. expanded coeff t) cs))) =
        (\<lambda>(t, cs). sum_list (map (\<lambda>coeff. length (expanded coeff t)) cs))"
    by (simp add: fun_eq_iff length_concat inner)
  then show ?thesis
    by (simp add: expand_term_types_append length_concat)
qed

text \<open>
  C6, as amended. For every input, also one with an operator id outside the range of
  the operator count or with two pairs giving one operator id different nonzero
  coefficients, the expansion raises nothing, \<open>InvalidEncoding\<close> in particular, and
  overwrites nothing: it returns, in term-type order and then pair order, the
  concatenation of \<open>ExpandedCoefficients_(coeff, term_type)\<close> over all pairs.
\<close>

theorem expand_coefficients_concat:
  "expand_coefficients expanded fermion_terms \<noteq> Inl InvalidEncoding \<and>
   expand_coefficients expanded fermion_terms =
     Inr (concat (map (\<lambda>(term_type, terms).
                         concat (map (\<lambda>(qubits, coeff). expanded coeff term_type) terms))
                      (enumerate 0 fermion_terms)))"
proof -
  have pair: "map (\<lambda>(qubits, coeff). expanded coeff t) terms =
              map (\<lambda>coeff. expanded coeff t) (map snd terms)" for t and terms :: "('b \<times> 'a) list"
    by (simp add: case_prod_unfold)
  have "concat (map (\<lambda>(t, cs). concat (map (\<lambda>coeff. expanded coeff t) cs))
                    (enumerate n (map (map snd) fts))) =
        concat (map (\<lambda>(term_type, terms).
                       concat (map (\<lambda>(qubits, coeff). expanded coeff term_type) terms))
                    (enumerate n fts))" for n and fts :: "('b \<times> 'a) list list"
    by (induction fts arbitrary: n) (simp_all add: pair)
  then show ?thesis
    by (simp add: expand_coefficients_def expand_term_types_append)
qed

text \<open>
  The claim as the specification states it fails on a single term type whose two pairs
  both name operator 99 (outside \<open>0..17\<close>) with the coefficients 0.5 and 0.7: the loop
  returns both coefficients.
\<close>

theorem invalid_encoding_counterexample:
  "\<not> (99 :: nat) < 18 \<and> (0.5 :: real) \<noteq> 0.7 \<and>
   expand_coefficients one_per_term [[(99 :: nat, 0.5), (99, 0.7)]] = Inr [0.5, 0.7] \<and>
   expand_coefficients one_per_term [[(99 :: nat, 0.5), (99, 0.7)]] \<noteq> Inl InvalidEncoding"
  by (simp add: expand_coefficients_def one_per_term_def)

text \<open>
  C7. The expansion never reads the operator ids: two inputs whose pairs carry the same
  coefficients, term type by term type and pair by pair, give the same flattened
  sequence, whatever their operator ids are.
\<close>

theorem expand_coefficients_ignores_operator_ids:
  assumes "map (map snd) fermion_terms = map (map snd) fermion_terms'"
  shows "expand_coefficients expanded fermion_terms =
         expand_coefficients expanded fermion_terms'"
  using assms by (simp add: expand_coefficients_def expand_term_types_append)

theorem expand_coefficients_ignores_operator_ids_witness:
  "map (map snd) [[(0 :: nat, 0.5 :: real), (1, 0.25)], [(2, 0.125)]] =
     map (map snd) [[(7 :: nat, 0.5 :: real), (7, 0.25)], [(99, 0.125)]] \<and>
   expand_coefficients one_per_term [[(0 :: nat, 0.5), (1, 0.25)], [(2, 0.125)]] =
     expand_coefficients one_per_term [[(7 :: nat, 0.5), (7, 0.25)], [(99, 0.125)]]"
  using expand_coefficients_ignores_operator_ids
    [of "[[(0 :: nat, 0.5 :: real), (1, 0.25)], [(2, 0.125)]]"
        "[[(7 :: nat, 0.5 :: real), (7, 0.25)], [(99, 0.125)]]" one_per_term]
  by simp

section \<open>Boundary values and the zero result\<close>

lemma calc_energy_Cons:
  "calc_energy energy_offset (coeff # coeffs) (res # results) =
   Inr ((2 * dict_get res ''0'' 0 - 1) * coeff
        + (sum_list (map2 (\<lambda>coeff res. (2 * dict_get res ''0'' 0 - 1) * coeff) coeffs results)
           + energy_offset))"
  by (simp add: calc_energy_def py_sum_sum_list)

lemma calc_energy_sum_list:
  "calc_energy energy_offset coeffs results =
   Inr (sum_list (map2 (\<lambda>coeff res. (2 * dict_get res ''0'' 0 - 1) * coeff) coeffs results)
        + energy_offset)"
  by (simp add: calc_energy_def py_sum_sum_list)

text \<open>
  C8. Put in front of any aligned pair of sequences, a result \<open>{"0": 1.0}\<close> adds
  \<open>+coeff\<close> to the energy, a result \<open>{"0": 0.0}\<close> adds \<open>-coeff\<close>, and a result with no
  label \<open>"0"\<close> counts as frequency 0.0 and adds \<open>-coeff\<close> as well.
\<close>

theorem boundary_contributions:
  assumes "calc_energy energy_offset coeffs results = Inr e"
  shows "(res_one ''0'' = Some 1 \<longrightarrow>
            calc_energy energy_offset (coeff # coeffs) (res_one # results) = Inr (e + coeff)) \<and>
         (res_zero ''0'' = Some 0 \<longrightarrow>
            calc_energy energy_offset (coeff # coeffs) (res_zero # results) = Inr (e - coeff)) \<and>
         (res_absent ''0'' = None \<longrightarrow>
            dict_get res_absent ''0'' 0 = 0 \<and>
            calc_energy energy_offset (coeff # coeffs) (res_absent # results) = Inr (e - coeff))"
  using assms
  by (simp add: calc_energy_Cons) (simp add: calc_energy_sum_list dict_get_def)

theorem boundary_contributions_witness:
  "calc_energy 0 [] [] = Inr 0 \<and>
   [''0'' \<mapsto> 1 :: real] ''0'' = Some 1 \<and> calc_energy 0 [3] [[''0'' \<mapsto> 1]] = Inr 3 \<and>
   [''0'' \<mapsto> 0 :: real] ''0'' = Some 0 \<and> calc_energy 0 [3] [[''0'' \<mapsto> 0]] = Inr (- 3) \<and>
   [''1'' \<mapsto> 1 :: real] ''0'' = None \<and> calc_energy 0 [3] [[''1'' \<mapsto> 1]] = Inr (- 3)"
proof -
  have start: "calc_energy 0 [] [] = Inr 0"
    by (simp add: calc_energy_def py_sum_def)
  show ?thesis
    using start
      boundary_contributions [OF start, of "[''0'' \<mapsto> 1]" 3 "[''0'' \<mapsto> 0]" "[''1'' \<mapsto> 1]"]
    by simp
qed

text \<open>
  C9. If every result of the sequence reports frequency 0.5 for \<open>"0"\<close>, every signed
  value \<open>2 * f - 1\<close> is 0, the sum without the offset is 0, and \<open>calc_energy\<close> returns
  the offset itself.
\<close>

theorem half_frequency_gives_offset:
  assumes "\<forall>res \<in> set results. res ''0'' = Some (1 / 2)"
  shows "(\<forall>res \<in> set results. 2 * dict_get res ''0'' 0 - 1 = 0) \<and>
         py_sum (map (\<lambda>(coeff, res). (2 * dict_get res ''0'' 0 - 1) * coeff)
                     (zip coeffs results)) = 0 \<and>
         calc_energy energy_offset coeffs results = Inr energy_offset"
proof -
  have signed: "\<forall>res \<in> set results. 2 * dict_get res ''0'' 0 - 1 = 0"
    using assms by (auto simp: dict_get_def)
  have "\<forall>p \<in> set (zip coeffs results). (\<lambda>(coeff, res). (2 * dict_get res ''0'' 0 - 1) * coeff) p = 0"
    using signed by (auto dest: set_zip_rightD)
  then have "sum_list (map (\<lambda>(coeff, res). (2 * dict_get res ''0'' 0 - 1) * coeff)
                           (zip coeffs results)) = 0"
    by (rule sum_list_all_zero)
  then have zero: "py_sum (map (\<lambda>(coeff, res). (2 * dict_get res ''0'' 0 - 1) * coeff)
                               (zip coeffs results)) = 0"
    by (simp add: py_sum_sum_list)
  from signed zero show ?thesis
    by (simp add: calc_energy_def)
qed

theorem half_frequency_gives_offset_witness:
  "[''0'' \<mapsto> 1 / 2 :: real] ''0'' = Some (1 / 2) \<and>
   [''0'' \<mapsto> 1 / 2 :: real, ''1'' \<mapsto> 1 / 2] ''0'' = Some (1 / 2) \<and>
   calc_energy (- 1.1) [0.5, - 0.3] [[''0'' \<mapsto> 1 / 2], [''0'' \<mapsto> 1 / 2, ''1'' \<mapsto> 1 / 2]]
     = Inr (- 1.1)"
proof -
  have h: "\<forall>res \<in> set [[''0'' \<mapsto> 1 / 2 :: real], [''0'' \<mapsto> 1 / 2, ''1'' \<mapsto> 1 / 2]].
             res ''0'' = Some (1 / 2)"
    by simp
  from half_frequency_gives_offset [OF h, where energy_offset = "- 1.1" and coeffs = "[0.5, - 0.3]"]
  show ?thesis
    by simp
qed

end
